theory Spec2Isabelle
  imports Main "HOL-Library.Sublist"
begin

section \<open>JavaScript values, exceptions and loops\<close>

text \<open>
  The values that travel through the framework. An event payload is a plain object, that
  is a finite map from property names to values. The numbers that occur (clock readings
  and durations, both in milliseconds) are integral. \<open>JRef\<close> is a reference to a DOM
  element, named by the number of the element; \<open>JObj\<close> is an object literal.
\<close>

datatype jsval = JUndefined | JNull | JBool bool | JNum int | JStr string | JRef nat
  | JObj "(string \<times> jsval) list"

type_synonym payload = "string \<rightharpoonup> jsval"

text \<open>
  The only exception the modelled code can raise is the \<open>TypeError\<close> of reading a
  property of \<open>null\<close> or \<open>undefined\<close>, or of calling something that is not a function. A
  function that can raise returns a completion: it returned, or it threw, and in both
  cases the state it left behind is kept, since what was changed before a throw stays
  changed.
\<close>

datatype error = TypeError

datatype 'a completion = Returned 'a | Thrown error 'a

fun state_of :: "'a completion \<Rightarrow> 'a" where
  "state_of (Returned s) = s"
| "state_of (Thrown e s) = s"

text \<open>
  \<open>list.forEach(callback)\<close> calls the callback on the elements in order. It has no
  handler of its own: an exception thrown by the callback ends the loop and leaves
  \<open>forEach\<close>. The lists the framework walks are the static lists that
  \<open>querySelectorAll\<close> returns, so they do not change during the walk. Where the callback
  cannot throw, the loop is written with \<open>fold\<close>.
\<close>

fun forEach :: "'a list \<Rightarrow> ('a \<Rightarrow> 's \<Rightarrow> 's completion) \<Rightarrow> 's \<Rightarrow> 's completion" where
  "forEach [] f s = Returned s"
| "forEach (x # xs) f s =
     (case f x s of Returned s' \<Rightarrow> forEach xs f s' | Thrown e s' \<Rightarrow> Thrown e s')"

section \<open>Event listener lists\<close>

text \<open>
  \<open>addEventListener\<close>, \<open>removeEventListener\<close> and \<open>dispatchEvent\<close> belong to the browser.
  What they do is fixed by the DOM standard, and is written out here as far as the
  framework uses it (no capture, no \<open>once\<close>, no abort signal):

  \<^item> \<open>addEventListener\<close> appends the listener to the target's list unless the list
    already holds the same listener (same type, same callback object);
  \<^item> \<open>removeEventListener\<close> takes that listener out of the list, if it is there, and
    marks it as removed;
  \<^item> \<open>dispatchEvent\<close> walks through a copy of the list made when the dispatch starts. A
    listener of another type is skipped, and so is a listener marked as removed in the
    meantime. An exception thrown by a callback is reported (to \<open>window.onerror\<close> and the
    console) and the walk goes on with the next listener. After a callback that has
    called \<open>stopImmediatePropagation\<close> on the event, whether it then threw or not, the
    walk ends.
\<close>

definition addEventListener :: "'a list \<Rightarrow> 'a \<Rightarrow> 'a list" where
  "addEventListener ls l = (if l \<in> set ls then ls else ls @ [l])"

definition removeEventListener :: "'a list \<Rightarrow> 'a \<Rightarrow> 'a list" where
  "removeEventListener ls l = remove1 l ls"

section \<open>The event system: \<open>on\<close>, \<open>off\<close>, \<open>emit\<close>\<close>

text \<open>
  \<open>on\<close>, \<open>off\<close> and \<open>emit\<close> (Easy.js, lines 943-959) work on the listener list of
  \<open>document\<close>. A listener is a pair of an event type and a callback; callbacks are
  function objects, compared by identity, so a callback is named by a number.
\<close>

type_synonym callback = nat

type_synonym listener = "string \<times> callback"

text \<open>
  What a callback does when it is called matters to the event system only through the
  calls it makes back into it, through what it does to the event it is handed, and
  through the way it ends. The body of a callback is therefore a list of steps: it
  subscribes (\<open>on\<close>), unsubscribes (\<open>off\<close>), calls \<open>e.stopPropagation()\<close> or
  \<open>e.stopImmediatePropagation()\<close>, or throws, which ends the body. A \<open>page\<close> gives every
  function object its body. \<open>e.preventDefault()\<close> has no bearing on the walk and is not a
  step. Callbacks that publish from inside a dispatch, or that change the \<open>detail\<close>
  object they were handed, are outside this model, and so are listeners that page code
  registers on \<open>window\<close> or \<open>document\<close> with the capture flag or with options: the
  framework registers none.
\<close>

datatype step = Subscribe string callback | Unsubscribe string callback
  | StopPropagation | StopImmediatePropagation | Raise

type_synonym page = "callback \<Rightarrow> step list"

text \<open>
  The trace of a dispatch: \<open>Delivered c ty d\<close> says that callback \<open>c\<close> was called with an
  event of type \<open>ty\<close> whose \<open>detail\<close> is \<open>d\<close>; \<open>Reported c\<close> says that the exception which
  ended \<open>c\<close> was reported.
\<close>

datatype entry = Delivered callback string payload | Reported callback

text \<open>
  Running a body on the live listener list, the listeners removed since the dispatch
  began, and the event's stop-immediate-propagation flag. The result says first whether
  the body threw. \<open>stopPropagation\<close> changes nothing here: the event is at its target, it
  does not bubble, and the flag it sets is read only when the walk of a target begins.
\<close>

fun run_handler :: "step list \<Rightarrow> listener list \<times> listener list \<times> bool \<Rightarrow>
    bool \<times> listener list \<times> listener list \<times> bool" where
  "run_handler [] (live, gone, stop) = (False, live, gone, stop)"
| "run_handler (Raise # ss) (live, gone, stop) = (True, live, gone, stop)"
| "run_handler (StopPropagation # ss) (live, gone, stop) = run_handler ss (live, gone, stop)"
| "run_handler (StopImmediatePropagation # ss) (live, gone, stop) =
     run_handler ss (live, gone, True)"
| "run_handler (Subscribe t c # ss) (live, gone, stop) =
     run_handler ss (addEventListener live (t, c), gone, stop)"
| "run_handler (Unsubscribe t c # ss) (live, gone, stop) =
     run_handler ss
       (removeEventListener live (t, c),
        if (t, c) \<in> set live then (t, c) # gone else gone, stop)"

text \<open>
  The walk through the copied list (the standard's "inner invoke"): a listener of
  another type or one removed in the meantime is passed over; the callback is called and
  an exception it throws is reported; and if the event's stop-immediate-propagation flag
  is set after the call, the walk ends there.
\<close>

fun inner_invoke :: "page \<Rightarrow> string \<Rightarrow> payload \<Rightarrow> listener list \<Rightarrow>
    listener list \<times> listener list \<times> entry list \<Rightarrow>
    listener list \<times> listener list \<times> entry list" where
  "inner_invoke P ty d [] s = s"
| "inner_invoke P ty d ((t, c) # rest) (live, gone, log) =
     (if t \<noteq> ty \<or> (t, c) \<in> set gone then inner_invoke P ty d rest (live, gone, log)
      else (case run_handler (P c) (live, gone, False) of
              (threw, live', gone', stop) \<Rightarrow>
                (if stop
                 then (live', gone',
                       log @ Delivered c ty d # (if threw then [Reported c] else []))
                 else inner_invoke P ty d rest
                        (live', gone',
                         log @ Delivered c ty d # (if threw then [Reported c] else [])))))"

definition dispatchEvent :: "page \<Rightarrow> listener list \<Rightarrow> string \<Rightarrow> payload \<Rightarrow>
    listener list \<times> entry list" where
  "dispatchEvent P ls ty d =
     (case inner_invoke P ty d ls (ls, [], []) of (live, gone, log) \<Rightarrow> (live, log))"

text \<open>
  All three methods end in \<open>return this\<close>: the value they return is the framework
  instance. \<open>EasyCSSEnhanced_methods\<close> lists what can be called on that instance: the
  methods of the class body and the methods every object inherits from
  \<open>Object.prototype\<close>. Any other name evaluates to \<open>undefined\<close> or, for the four fields
  that the constructor sets and for \<open>constructor\<close>, to something that cannot be called
  as a function; the call throws a \<open>TypeError\<close>.
\<close>

datatype receiver = This

definition EasyCSSEnhanced_methods :: "string list" where
  "EasyCSSEnhanced_methods =
     [''init'', ''initializeComponents'', ''initTheme'', ''toggleTheme'',
      ''setTheme'', ''updateThemeIcon'', ''initModals'', ''openModal'', ''closeModal'',
      ''trapFocus'', ''initDropdowns'', ''toggleDropdown'', ''openDropdown'',
      ''closeDropdown'', ''positionDropdown'', ''handleDropdownKeyboard'', ''initTabs'',
      ''switchTab'', ''handleTabKeyboard'', ''initAccordions'', ''toggleAccordionItem'',
      ''handleAccordionKeyboard'', ''initTooltips'', ''positionTooltip'', ''initToasts'',
      ''showToast'', ''hideToast'', ''initNavbarToggle'', ''initSmoothScroll'',
      ''initAnimationTriggers'', ''initLoadingStates'', ''initAlertClose'',
      ''initLanguageToggle'', ''initAccessibility'', ''createSkipLink'',
      ''initFocusManagement'', ''initKeyboardNavigation'', ''initScreenReaderSupport'',
      ''announceToScreenReader'', ''initPerformanceOptimizations'', ''handleResize'',
      ''initLazyLoading'', ''prefetchResources'', ''on'', ''off'', ''emit'',
      ''registerComponent'', ''getComponent'', ''destroy'', ''showModal'', ''hideModal'',
      ''showDropdown'', ''hideDropdown'', ''notify'', ''setDirection'', ''getTheme'',
      ''getDirection'',
      ''hasOwnProperty'', ''isPrototypeOf'', ''propertyIsEnumerable'', ''toLocaleString'',
      ''toString'', ''valueOf'', ''__defineGetter__'', ''__defineSetter__'',
      ''__lookupGetter__'', ''__lookupSetter__'']"

definition call_member :: "receiver \<Rightarrow> string \<Rightarrow> error option" where
  "call_member r name = (if name \<in> set EasyCSSEnhanced_methods then None else Some TypeError)"

definition on :: "listener list \<Rightarrow> string \<Rightarrow> callback \<Rightarrow> listener list \<times> receiver" where
  "on ls event cb = (addEventListener ls (event, cb), This)"

definition off :: "listener list \<Rightarrow> string \<Rightarrow> callback \<Rightarrow> listener list \<times> receiver" where
  "off ls event cb = (removeEventListener ls (event, cb), This)"

text \<open>
  \<open>emit(event, data = {})\<close>: the default applies when no data is passed. The \<open>detail\<close> of
  the event is \<open>{ ...data, timestamp: Date.now() }\<close>; \<open>now\<close> is the reading of the clock.
\<close>

definition event_detail :: "int \<Rightarrow> payload option \<Rightarrow> payload" where
  "event_detail now data =
     (case data of None \<Rightarrow> Map.empty | Some m \<Rightarrow> m)(''timestamp'' \<mapsto> JNum now)"

definition emit :: "page \<Rightarrow> int \<Rightarrow> listener list \<Rightarrow> string \<Rightarrow> payload option \<Rightarrow>
    (listener list \<times> entry list) \<times> receiver" where
  "emit P now ls event data = (dispatchEvent P ls event (event_detail now data), This)"

text \<open>
  Reading the result of an \<open>emit\<close>: the listeners it leaves, its trace, the callbacks it
  called in the order of the calls. \<open>subscribers\<close> are the callbacks a list holds for an
  event, in the order of their registration; \<open>executed\<close> are the steps of a body that
  run, those before its first \<open>Raise\<close>.
\<close>

definition listeners_after :: "(listener list \<times> entry list) \<times> receiver \<Rightarrow> listener list" where
  "listeners_after r = fst (fst r)"

definition trace :: "(listener list \<times> entry list) \<times> receiver \<Rightarrow> entry list" where
  "trace r = snd (fst r)"

fun delivered_to :: "entry list \<Rightarrow> callback list" where
  "delivered_to [] = []"
| "delivered_to (Delivered c ty d # es) = c # delivered_to es"
| "delivered_to (Reported c # es) = delivered_to es"

definition subscribers :: "listener list \<Rightarrow> string \<Rightarrow> callback list" where
  "subscribers ls event = map snd (filter (\<lambda>l. fst l = event) ls)"


section \<open>The document\<close>

text \<open>
  The document is a tree of elements. An element has a number that names it (the
  identity of the DOM object), a tag, its attributes, the tokens of its class list, its
  own text, and its children. \<open>el_style\<close> is the inline style object: \<open>None\<close> for an
  element that has no \<open>style\<close> property at all (an element that is neither HTML nor SVG
  nor MathML, such as one made by \<open>createElementNS\<close> in a namespace of the page's own).
\<close>

datatype element =
  Element (el_id: nat) (el_tag: string) (el_attrs: "(string \<times> string) list")
    (el_classes: "string list") (el_text: string)
    (el_style: "(string \<times> string) list option") (el_kids: "element list")

text \<open>The elements of a tree in document order, and those below an element.\<close>

fun nodes :: "element \<Rightarrow> element list" where
  "nodes (Element i t a c x s ks) = Element i t a c x s ks # concat (map nodes ks)"

definition descendants :: "element \<Rightarrow> element list" where
  "descendants e = concat (map nodes (el_kids e))"

text \<open>The path from an element up to the root, the element first; empty if it is absent.\<close>

fun path_to :: "nat \<Rightarrow> element \<Rightarrow> element list" where
  "path_to n (Element i t a c x s ks) =
     (if n = i then [Element i t a c x s ks]
      else (case filter (\<lambda>p. p \<noteq> []) (map (path_to n) ks) of
              [] \<Rightarrow> []
            | p # ps \<Rightarrow> p @ [Element i t a c x s ks]))"

text \<open>Changing the element with a given number, where it stands in the tree.\<close>

fun update :: "nat \<Rightarrow> (element \<Rightarrow> element) \<Rightarrow> element \<Rightarrow> element" where
  "update n f (Element i t a c x s ks) =
     (if n = i then f (Element i t a c x s ks)
      else Element i t a c x s (map (update n f) ks))"

text \<open>
  The selectors the modelled functions use: \<open>[name]\<close>, \<open>.name\<close> and \<open>[class*="part"]\<close>.
  The last one asks for \<open>part\<close> inside the \<open>class\<close> attribute; the parts used have no
  blank in them, so they lie inside one token of the class list.
\<close>

fun contains :: "string \<Rightarrow> string \<Rightarrow> bool" where
  "contains s [] = (s = [])"
| "contains s (c # cs) = (take (length s) (c # cs) = s \<or> contains s cs)"

datatype selector = HasAttr string | HasClass string | ClassContains string

fun matches :: "selector \<Rightarrow> element \<Rightarrow> bool" where
  "matches (HasAttr a) e = (a \<in> set (map fst (el_attrs e)))"
| "matches (HasClass c) e = (c \<in> set (el_classes e))"
| "matches (ClassContains s) e = list_ex (contains s) (el_classes e)"

definition lookup :: "element \<Rightarrow> nat \<Rightarrow> element option" where
  "lookup r n = find (\<lambda>e. el_id e = n) (nodes r)"

text \<open>
  \<open>document.querySelectorAll\<close> and \<open>document.querySelector\<close>; \<open>el.querySelectorAll\<close> and
  \<open>el.querySelector\<close>, which search below \<open>el\<close>; \<open>el.closest\<close>, which searches from \<open>el\<close>
  upwards, \<open>el\<close> included. Elements are handed around by their numbers. The functions
  modelled here only search below elements they have just found in the document.
\<close>

definition querySelectorAll :: "element \<Rightarrow> selector \<Rightarrow> nat list" where
  "querySelectorAll r sel = map el_id (filter (matches sel) (nodes r))"

definition querySelector :: "element \<Rightarrow> selector \<Rightarrow> nat option" where
  "querySelector r sel = (case querySelectorAll r sel of [] \<Rightarrow> None | n # ns \<Rightarrow> Some n)"

definition querySelectorAll_in :: "element \<Rightarrow> nat \<Rightarrow> selector \<Rightarrow> nat list" where
  "querySelectorAll_in r n sel =
     (case lookup r n of None \<Rightarrow> []
      | Some e \<Rightarrow> map el_id (filter (matches sel) (descendants e)))"

definition querySelector_in :: "element \<Rightarrow> nat \<Rightarrow> selector \<Rightarrow> nat option" where
  "querySelector_in r n sel =
     (case querySelectorAll_in r n sel of [] \<Rightarrow> None | m # ms \<Rightarrow> Some m)"

definition closest :: "element \<Rightarrow> nat \<Rightarrow> selector \<Rightarrow> nat option" where
  "closest r n sel =
     (case filter (matches sel) (path_to n r) of [] \<Rightarrow> None | e # es \<Rightarrow> Some (el_id e))"

text \<open>\<open>document.body\<close>: the first \<open>body\<close> or \<open>frameset\<close> child of the root, or \<open>null\<close>.\<close>

definition body :: "element \<Rightarrow> nat option" where
  "body r =
     map_option el_id (find (\<lambda>k. el_tag k = ''body'' \<or> el_tag k = ''frameset'') (el_kids r))"

text \<open>Changing one part of an element.\<close>

fun with_attrs :: "((string \<times> string) list \<Rightarrow> (string \<times> string) list) \<Rightarrow>
    element \<Rightarrow> element" where
  "with_attrs g (Element i t a c x s ks) = Element i t (g a) c x s ks"

fun with_classes :: "(string list \<Rightarrow> string list) \<Rightarrow> element \<Rightarrow> element" where
  "with_classes g (Element i t a c x s ks) = Element i t a (g c) x s ks"

fun with_kids :: "(element list \<Rightarrow> element list) \<Rightarrow> element \<Rightarrow> element" where
  "with_kids g (Element i t a c x s ks) = Element i t a c x s (g ks)"

fun with_text :: "string \<Rightarrow> element \<Rightarrow> element" where
  "with_text y (Element i t a c x s ks) = Element i t a c y s []"

fun with_style :: "((string \<times> string) list \<Rightarrow> (string \<times> string) list) \<Rightarrow>
    element \<Rightarrow> element" where
  "with_style g (Element i t a c x s ks) = Element i t a c x (map_option g s) ks"

text \<open>Setting a key of a list of pairs: in place if the key is there, at the end if not.\<close>

fun put :: "'k \<Rightarrow> 'v \<Rightarrow> ('k \<times> 'v) list \<Rightarrow> ('k \<times> 'v) list" where
  "put k v [] = [(k, v)]"
| "put k v ((k', v') # kvs) = (if k = k' then (k, v) # kvs else (k', v') # put k v kvs)"

text \<open>
  The DOM operations on an element of the document: \<open>setAttribute\<close>, the \<open>classList\<close>
  methods, the setter of \<open>textContent\<close> (which replaces the children by the text), a
  property of \<open>style\<close>, and \<open>appendChild\<close>.
\<close>

definition setAttribute :: "nat \<Rightarrow> string \<Rightarrow> string \<Rightarrow> element \<Rightarrow> element" where
  "setAttribute n k v r = update n (with_attrs (put k v)) r"

definition classList_add :: "nat \<Rightarrow> string \<Rightarrow> element \<Rightarrow> element" where
  "classList_add n c r = update n (with_classes (\<lambda>cs. if c \<in> set cs then cs else cs @ [c])) r"

definition classList_remove :: "nat \<Rightarrow> string \<Rightarrow> element \<Rightarrow> element" where
  "classList_remove n c r = update n (with_classes (removeAll c)) r"

definition classList_toggle :: "nat \<Rightarrow> string \<Rightarrow> element \<Rightarrow> element" where
  "classList_toggle n c r =
     update n (with_classes (\<lambda>cs. if c \<in> set cs then removeAll c cs else cs @ [c])) r"

definition classList_contains :: "element \<Rightarrow> nat \<Rightarrow> string \<Rightarrow> bool" where
  "classList_contains r n c =
     (case lookup r n of None \<Rightarrow> False | Some e \<Rightarrow> c \<in> set (el_classes e))"

definition set_textContent :: "nat \<Rightarrow> string \<Rightarrow> element \<Rightarrow> element" where
  "set_textContent n y r = update n (with_text y) r"

definition has_style :: "element \<Rightarrow> nat \<Rightarrow> bool" where
  "has_style r n = (case lookup r n of None \<Rightarrow> False | Some e \<Rightarrow> el_style e \<noteq> None)"

definition set_style :: "nat \<Rightarrow> string \<Rightarrow> string \<Rightarrow> element \<Rightarrow> element" where
  "set_style n k v r = update n (with_style (put k v)) r"

definition appendChild :: "nat \<Rightarrow> element \<Rightarrow> element \<Rightarrow> element" where
  "appendChild parent child r = update parent (with_kids (\<lambda>ks. ks @ [child])) r"


definition fresh_id :: "element \<Rightarrow> nat" where
  "fresh_id r = Suc (fold max (map el_id (nodes r)) 0)"

section \<open>The framework instance in its browser\<close>

text \<open>
  The listeners the framework registers are arrow functions. Each evaluation of an arrow
  function makes a new function object; \<open>reg_fn\<close> is the identity of that object and
  \<open>reg_code\<close> says which arrow function of Easy.js it is and which elements it has
  captured. The listener lists of all targets are kept in one list, each listener with its
  target.
\<close>

datatype target = Document | Node nat | MediaQueryList

datatype closure =
    ThemeToggleClick
  | SchemeChange
  | ModalTriggerClick nat
  | ModalCloseClick nat
  | ModalEscapeKeydown nat
  | ModalBackdropClick nat
  | DropdownTriggerClick nat
  | DropdownOutsideClick nat
  | DropdownKeydown nat
  | ToastTriggerClick nat
  | ToastCloseClick nat
  | NavbarToggleClick nat

record registration =
  reg_target :: target
  reg_type :: string
  reg_fn :: nat
  reg_code :: closure

text \<open>What \<open>setTimeout\<close> and \<open>requestAnimationFrame\<close> are asked to run later.\<close>

datatype task = HideToast nat | RemoveToast nat | AddShowClass nat

datatype storage_op = GetItem string | SetItem string string

text \<open>
  The state the modelled functions read and write: the document, the listeners, the
  counters for new function objects and new elements, \<open>this.theme\<close>, \<open>localStorage\<close> with
  the record of the accesses to it, the timers (delay and task) and animation frames
  asked for, the calls of \<open>this.emit\<close> (event name and data), the elements handed to an
  \<open>IntersectionObserver\<close>, and the keys of \<open>this.observers\<close>. The fields \<open>components\<close> and
  \<open>direction\<close> of the instance play no part in these functions and are left out.
\<close>

record world =
  dom :: element
  registered :: "registration list"
  next_fn :: nat
  next_node :: nat
  theme :: string
  localStorage :: "string \<rightharpoonup> string"
  storage_log :: "storage_op list"
  timers :: "(int \<times> task) list"
  frames :: "task list"
  emitted :: "(string \<times> (string \<times> jsval) list) list"
  observed :: "nat list"
  observers :: "string list"

text \<open>
  What the code asks the browser: the clock, whether \<open>window.matchMedia\<close> and
  \<open>IntersectionObserver\<close> exist, the answer of the reduced-motion media query, the layout
  (\<open>getBoundingClientRect\<close> of an element of a document, in whole pixels), the size of
  the viewport, the HTML parser and the text of the built-in functions.

  \<open>parseFragment\<close> is the parser behind the setter of \<open>innerHTML\<close> on a \<open>div\<close>: from the
  markup and the first free element number it gives the text that comes to stand directly
  in the \<open>div\<close> and the elements that become its children, numbered from that number
  on. \<open>function_text\<close> is what a template prints for the function that \<open>Object.prototype\<close>
  holds under a name; the standard leaves the exact text to the implementation.
\<close>

record box =
  b_top :: int
  b_bottom :: int
  b_left :: int
  b_right :: int
  b_width :: int
  b_height :: int

record browser =
  clock :: int
  matchMedia :: bool
  intersectionObserver :: bool
  reduced_motion :: bool
  getBoundingClientRect :: "element \<Rightarrow> nat \<Rightarrow> box"
  innerWidth :: int
  innerHeight :: int
  parseFragment :: "string \<Rightarrow> nat \<Rightarrow> string \<times> element list"
  function_text :: "string \<Rightarrow> string"

text \<open>
  \<open>target.addEventListener(type, (e) => ...)\<close>: a new function object is made and
  registered.
\<close>

definition listen :: "target \<Rightarrow> string \<Rightarrow> closure \<Rightarrow> world \<Rightarrow> world" where
  "listen tg ty code w =
     w\<lparr>next_fn := Suc (next_fn w),
       registered := addEventListener (registered w)
         \<lparr>reg_target = tg, reg_type = ty, reg_fn = next_fn w, reg_code = code\<rparr>\<rparr>"



text \<open>
  A call \<open>this.emit(event, data)\<close> from inside the framework is recorded; what the call
  does is the subject of \<open>emit\<close> above.
\<close>

definition this_emit :: "string \<Rightarrow> (string \<times> jsval) list \<Rightarrow> world \<Rightarrow> world" where
  "this_emit event data w = w\<lparr>emitted := emitted w @ [(event, data)]\<rparr>"

definition getItem :: "string \<Rightarrow> world \<Rightarrow> string option \<times> world" where
  "getItem k w = (localStorage w k, w\<lparr>storage_log := storage_log w @ [GetItem k]\<rparr>)"

definition setItem :: "string \<Rightarrow> string \<Rightarrow> world \<Rightarrow> world" where
  "setItem k v w = w\<lparr>localStorage := (localStorage w)(k \<mapsto> v),
                      storage_log := storage_log w @ [SetItem k v]\<rparr>"

text \<open>\<open>v || d\<close> for a stored string \<open>v\<close>: \<open>null\<close> and the empty string are falsy.\<close>

definition or_else :: "string option \<Rightarrow> string \<Rightarrow> string" where
  "or_else v d = (case v of None \<Rightarrow> d | Some s \<Rightarrow> if s = [] then d else s)"

subsection \<open>Theme\<close>

text \<open>
  The constructor (lines 5-9) up to its call of \<open>this.init()\<close>: the instance over a given
  storage and document, with \<open>this.theme = localStorage.getItem('easycss-theme') || 'light'\<close>.
  \<open>init\<close> then runs \<open>initializeComponents\<close>, whose first call is \<open>initTheme\<close>. In the whole
  file \<open>localStorage\<close> occurs on lines 8, 59 and 74 only, and \<open>this.theme\<close> is assigned on
  lines 8 and 72 only, so the other init functions neither touch the storage nor the
  theme.
\<close>

definition new_EasyCSSEnhanced :: "(string \<rightharpoonup> string) \<Rightarrow> element \<Rightarrow> world" where
  "new_EasyCSSEnhanced store document =
     (let w = \<lparr>dom = document, registered = [], next_fn = 0, next_node = fresh_id document,
                theme = [], localStorage = store, storage_log = [], timers = [], frames = [],
                emitted = [], observed = [], observers = []\<rparr>
      in case getItem ''easycss-theme'' w of
           (v, w1) \<Rightarrow> w1\<lparr>theme := or_else v ''light''\<rparr>)"

text \<open>
  \<open>updateThemeIcon\<close> (lines 79-84). The two icons are characters outside ASCII: a sun
  for the dark theme, a moon otherwise; they are written by their names.
\<close>

definition updateThemeIcon :: "string \<Rightarrow> world \<Rightarrow> world" where
  "updateThemeIcon th w =
     fold (\<lambda>icon w. w\<lparr>dom := set_textContent icon
                                (if th = ''dark'' then ''(sun)'' else ''(moon)'') (dom w)\<rparr>)
       (querySelectorAll (dom w) (HasClass ''theme-icon'')) w"

text \<open>\<open>initTheme\<close> (lines 44-64); \<open>document.documentElement\<close> is the root of the tree.\<close>

definition initTheme :: "browser \<Rightarrow> world \<Rightarrow> world" where
  "initTheme env w =
     (let w1 = w\<lparr>dom := setAttribute (el_id (dom w)) ''data-theme'' (theme w) (dom w)\<rparr>;
          w2 = updateThemeIcon (theme w1) w1;
          w3 = fold (\<lambda>toggle. listen (Node toggle) ''click'' ThemeToggleClick)
                 (querySelectorAll (dom w2) (HasAttr ''data-theme-toggle'')) w2
      in if matchMedia env then listen MediaQueryList ''change'' SchemeChange w3 else w3)"

text \<open>\<open>setTheme\<close> (lines 71-77) and \<open>toggleTheme\<close> (lines 66-69).\<close>

definition setTheme :: "string \<Rightarrow> world \<Rightarrow> world" where
  "setTheme th w =
     (let w1 = w\<lparr>theme := th\<rparr>;
          w2 = w1\<lparr>dom := setAttribute (el_id (dom w1)) ''data-theme'' th (dom w1)\<rparr>;
          w3 = setItem ''easycss-theme'' th w2;
          w4 = updateThemeIcon th w3
      in this_emit ''easycss:theme-changed'' [(''theme'', JStr th)] w4)"

definition toggleTheme :: "world \<Rightarrow> world" where
  "toggleTheme w = setTheme (if theme w = ''dark'' then ''light'' else ''dark'') w"

text \<open>
  The listener of lines 58-62, called when the system's colour scheme changes; \<open>dark\<close> is
  \<open>e.matches\<close>.
\<close>

definition scheme_changed :: "bool \<Rightarrow> world \<Rightarrow> world" where
  "scheme_changed dark w =
     (case getItem ''easycss-theme'' w of
        (v, w1) \<Rightarrow> if or_else v [] = [] then setTheme (if dark then ''dark'' else ''light'') w1
                    else w1)"

subsection \<open>Modals\<close>

text \<open>
  \<open>initModals\<close> (lines 87-118). Both lists are queried before the loops; \<open>bind_modal\<close> is
  the body of the loop over the modals.
\<close>

definition bind_modal :: "nat \<Rightarrow> world \<Rightarrow> world" where
  "bind_modal modal w =
     (let closeButtons = querySelectorAll_in (dom w) modal (HasAttr ''data-modal-close'');
          w1 = fold (\<lambda>button. listen (Node button) ''click'' (ModalCloseClick modal))
                 closeButtons w;
          w2 = listen Document ''keydown'' (ModalEscapeKeydown modal) w1
      in (case querySelector_in (dom w2) modal (HasClass ''modal-backdrop'') of
            None \<Rightarrow> w2
          | Some backdrop \<Rightarrow> listen (Node backdrop) ''click'' (ModalBackdropClick modal) w2))"

definition initModals :: "world \<Rightarrow> world" where
  "initModals w =
     (let modals = querySelectorAll (dom w) (HasAttr ''data-modal'');
          triggers = querySelectorAll (dom w) (HasAttr ''data-modal-trigger'');
          w1 = fold (\<lambda>trigger. listen (Node trigger) ''click'' (ModalTriggerClick trigger))
                 triggers w
      in fold bind_modal modals w1)"

subsection \<open>Dropdowns\<close>

text \<open>\<open>positionDropdown\<close> (lines 240-258).\<close>

definition positionDropdown :: "browser \<Rightarrow> nat \<Rightarrow> nat \<Rightarrow> world \<Rightarrow> world" where
  "positionDropdown env dropdown menu w =
     (let rect = getBoundingClientRect env (dom w) dropdown;
          menuRect = getBoundingClientRect env (dom w) menu;
          viewportHeight = innerHeight env;
          viewportWidth = innerWidth env;
          w1 = w\<lparr>dom := classList_remove menu ''dropdown-menu-right''
                        (classList_remove menu ''dropdown-menu-up'' (dom w))\<rparr>;
          w2 = (if b_bottom rect + b_height menuRect > viewportHeight
                   \<and> b_top rect > b_height menuRect
                then w1\<lparr>dom := classList_add menu ''dropdown-menu-up'' (dom w1)\<rparr> else w1)
      in if b_left rect + b_width menuRect > viewportWidth \<and> b_right rect > b_width menuRect
         then w2\<lparr>dom := classList_add menu ''dropdown-menu-right'' (dom w2)\<rparr> else w2)"

text \<open>
  \<open>initDropdowns\<close> (lines 180-209); \<open>bind_dropdown\<close> is the body of its loop, which
  returns at once when the trigger or the menu is missing.
\<close>

definition bind_dropdown :: "browser \<Rightarrow> nat \<Rightarrow> world \<Rightarrow> world" where
  "bind_dropdown env dropdown w =
     (case (querySelector_in (dom w) dropdown (HasAttr ''data-dropdown-trigger''),
            querySelector_in (dom w) dropdown (HasClass ''dropdown-menu'')) of
        (Some trigger, Some menu) \<Rightarrow>
          positionDropdown env dropdown menu
            (listen (Node dropdown) ''keydown'' (DropdownKeydown dropdown)
              (listen Document ''click'' (DropdownOutsideClick dropdown)
                (listen (Node trigger) ''click'' (DropdownTriggerClick dropdown) w)))
      | _ \<Rightarrow> w)"

definition initDropdowns :: "browser \<Rightarrow> world \<Rightarrow> world" where
  "initDropdowns env w =
     fold (bind_dropdown env) (querySelectorAll (dom w) (HasAttr ''data-dropdown'')) w"

subsection \<open>Toasts\<close>

text \<open>
  \<open>initToasts\<close> (lines 517-536). The loop only registers listeners; the container is
  made afterwards if the document has none. \<open>document.body.appendChild\<close> needs a body.
\<close>

definition initToasts :: "world \<Rightarrow> world completion" where
  "initToasts w =
     (let triggers = querySelectorAll (dom w) (HasAttr ''data-toast-trigger'');
          w1 = fold (\<lambda>trigger. listen (Node trigger) ''click'' (ToastTriggerClick trigger))
                 triggers w
      in case querySelector (dom w1) (HasAttr ''data-toast-container'') of
           Some c \<Rightarrow> Returned w1
         | None \<Rightarrow>
             (let container = Element (next_node w1) ''div''
                    [(''data-toast-container'', []), (''aria-live'', ''polite''),
                     (''aria-atomic'', ''true'')]
                    [''toast-container''] [] (Some []) [];
                  w2 = w1\<lparr>next_node := Suc (next_node w1)\<rparr>
              in case body (dom w2) of
                   None \<Rightarrow> Thrown TypeError w2
                 | Some b \<Rightarrow> Returned (w2\<lparr>dom := appendChild b container (dom w2)\<rparr>)))"










text \<open>
  The template of lines 558-565, character by character: every line of it begins with a
  line feed and the blanks of its indentation, and the values are put in as they are.
\<close>

definition indent :: "nat \<Rightarrow> string" where
  "indent k = CHR 0x0A # replicate k (CHR '' '')"

definition quoted :: "string \<Rightarrow> string" where
  "quoted s = CHR 0x22 # s @ [CHR 0x22]"

definition toast_content :: "string \<Rightarrow> string \<Rightarrow> string \<Rightarrow> string" where
  "toast_content icon title message =
     indent 12 @ ''<div class='' @ quoted ''toast-icon'' @ ''>'' @ icon @ ''</div>'' @
     indent 12 @ ''<div class='' @ quoted ''toast-content'' @ ''>'' @
     indent 16 @ ''<div class='' @ quoted ''toast-title'' @ ''>'' @ title @ ''</div>'' @
     indent 16 @ ''<div class='' @ quoted ''toast-message'' @ ''>'' @ message @ ''</div>'' @
     indent 12 @ ''</div>'' @
     indent 12 @ ''<button class='' @ quoted ''toast-close'' @ '' aria-label='' @
       quoted ''Close notification'' @ ''>&times;</button>'' @
     indent 8"















subsection \<open>The navbar toggle\<close>

text \<open>\<open>initNavbarToggle\<close> (lines 603-624) registers one click listener per toggle.\<close>

definition initNavbarToggle :: "world \<Rightarrow> world" where
  "initNavbarToggle w =
     fold (\<lambda>toggle. listen (Node toggle) ''click'' (NavbarToggleClick toggle))
       (querySelectorAll (dom w) (HasAttr ''data-navbar-toggle'')) w"

definition boolean_string :: "bool \<Rightarrow> string" where
  "boolean_string b = (if b then ''true'' else ''false'')"

text \<open>
  The click listener of lines 607-622. \<open>toggle.closest('.navbar')\<close> is \<open>null\<close> when the
  toggle has no \<open>.navbar\<close> above it; the next line reads \<open>navbar.querySelector\<close> without a
  test, which throws on \<open>null\<close>. Only the result of that second search is tested.
\<close>

definition navbar_toggle_click :: "nat \<Rightarrow> world \<Rightarrow> world completion" where
  "navbar_toggle_click toggle w =
     (case closest (dom w) toggle (HasClass ''navbar'') of
        None \<Rightarrow> Thrown TypeError w
      | Some navbar \<Rightarrow>
          (case querySelector_in (dom w) navbar (HasClass ''navbar-nav'') of
             None \<Rightarrow> Returned w
           | Some nav \<Rightarrow>
               (let isActive = classList_contains (dom w) nav ''active'';
                    w1 = w\<lparr>dom := classList_toggle nav ''active'' (dom w)\<rparr>;
                    w2 = w1\<lparr>dom := classList_toggle toggle ''active'' (dom w1)\<rparr>;
                    w3 = w2\<lparr>dom := setAttribute toggle ''aria-expanded''
                                   (boolean_string (\<not> isActive)) (dom w2)\<rparr>;
                    w4 = w3\<lparr>dom := setAttribute nav ''aria-hidden''
                                   (boolean_string isActive) (dom w3)\<rparr>
                in Returned (this_emit ''easycss:navbar-toggled''
                     [(''navbar'', JRef navbar), (''nav'', JRef nav),
                      (''isActive'', JBool (\<not> isActive))] w4))))"

subsection \<open>Animation triggers\<close>

text \<open>
  \<open>initAnimationTriggers\<close> (lines 661-689). \<open>bind_animated\<close> is the body of its loop: it
  calls \<open>window.matchMedia\<close> without testing that it exists (\<open>initTheme\<close> does test), and
  it assigns to a property of \<open>element.style\<close>. The key under which the observer is
  stored is added to \<open>this.observers\<close> after the loop.
\<close>

definition bind_animated :: "browser \<Rightarrow> nat \<Rightarrow> world \<Rightarrow> world completion" where
  "bind_animated env el w =
     (if \<not> matchMedia env then Thrown TypeError w
      else if reduced_motion env then Returned w
      else if \<not> has_style (dom w) el then Thrown TypeError w
      else Returned (w\<lparr>dom := set_style el ''animationPlayState'' ''paused'' (dom w),
                       observed := observed w @ [el]\<rparr>))"

definition initAnimationTriggers :: "browser \<Rightarrow> world \<Rightarrow> world completion" where
  "initAnimationTriggers env w =
     (if \<not> intersectionObserver env then Returned w
      else (case forEach (querySelectorAll (dom w) (ClassContains ''animate-''))
                   (bind_animated env) w of
              Thrown e w' \<Rightarrow> Thrown e w'
            | Returned w' \<Rightarrow>
                Returned (w'\<lparr>observers := List.insert ''animations'' (observers w')\<rparr>)))"

section \<open>Notions used in the statements\<close>

text \<open>
  A world is \<open>fresh\<close> when the counter of function objects is ahead of every function
  object registered, so that the next arrow function is a new object. A document has
  \<open>unique_ids\<close> when no two of its elements carry the same number.
\<close>

definition fresh :: "world \<Rightarrow> bool" where
  "fresh w = (\<forall>l \<in> set (registered w). reg_fn l < next_fn w)"

definition unique_ids :: "element \<Rightarrow> bool" where
  "unique_ids r = distinct (map el_id (nodes r))"

text \<open>
  The number of registered listeners of a kind, and in particular the number of click
  listeners on the element \<open>t\<close> that open a modal for the trigger \<open>t\<close>.
\<close>

definition bound :: "(target \<Rightarrow> string \<Rightarrow> closure \<Rightarrow> bool) \<Rightarrow> world \<Rightarrow> nat" where
  "bound q w =
     length (filter (\<lambda>l. q (reg_target l) (reg_type l) (reg_code l)) (registered w))"

definition trigger_bindings :: "world \<Rightarrow> nat \<Rightarrow> nat" where
  "trigger_bindings w t =
     bound (\<lambda>tg ty code. tg = Node t \<and> ty = ''click'' \<and> code = ModalTriggerClick t) w"

text \<open>Which numbers a document holds, in order, and which of them have a style object.\<close>

definition shape :: "element \<Rightarrow> (nat \<times> bool) list" where
  "shape r = map (\<lambda>e. (el_id e, el_style e \<noteq> None)) (nodes r)"



section \<open>Example pages\<close>

text \<open>
  A page with a modal and its trigger; a page whose navbar toggle stands outside the
  navbar; a page with three animated elements, the second of them without a style
  object; a page with a toast trigger and a toast container; a page with a dropdown that has a
  trigger but no menu; and a browser.
\<close>

definition modal_page :: element where
  "modal_page = Element 0 ''html'' [] [] [] (Some [])
     [Element 1 ''body'' [] [] [] (Some [])
       [Element 2 ''button'' [(''data-modal-trigger'', ''m'')] [] ''open'' (Some []) [],
        Element 3 ''div'' [(''data-modal'', ''m'')] [] [] (Some [])
          [Element 4 ''div'' [] [''modal-backdrop''] [] (Some []) [],
           Element 5 ''button'' [(''data-modal-close'', [])] [] ''close'' (Some []) []]]]"

definition navbar_page :: element where
  "navbar_page = Element 0 ''html'' [] [] [] (Some [])
     [Element 1 ''body'' [] [] [] (Some [])
       [Element 2 ''button'' [(''data-navbar-toggle'', [])] [] ''menu'' (Some []) [],
        Element 3 ''nav'' [] [''navbar''] [] (Some [])
          [Element 4 ''ul'' [] [''navbar-nav''] [] (Some []) []]]]"

definition animated_page :: element where
  "animated_page = Element 0 ''html'' [] [] [] (Some [])
     [Element 1 ''body'' [] [] [] (Some [])
       [Element 2 ''div'' [] [''animate-fade''] [] (Some []) [],
        Element 3 ''glyph'' [] [''animate-spin''] [] None [],
        Element 4 ''div'' [] [''animate-rise''] [] (Some []) []]]"

definition toast_page :: element where
  "toast_page = Element 0 ''html'' [] [] [] (Some [])
     [Element 1 ''body'' [] [] [] (Some [])
       [Element 2 ''button'' [(''data-toast-trigger'', ''{}'')] [] ''notify'' (Some []) [],
        Element 3 ''div'' [(''data-toast-container'', [])] [''toast-container''] []
          (Some []) []]]"

definition dropdown_page :: element where
  "dropdown_page = Element 0 ''html'' [] [] [] (Some [])
     [Element 1 ''body'' [] [] [] (Some [])
       [Element 2 ''div'' [(''data-dropdown'', [])] [] [] (Some [])
          [Element 3 ''button'' [(''data-dropdown-trigger'', [])] [] ''more'' (Some []) []]]]"

text \<open>
  What the HTML parser makes of the template of a toast, given here for two markups
  only. Where icon, title and message are plain text, the markup gives the three
  elements it spells out, with the line breaks of the template as the text between them
  (the multiplication sign of the button is written by its name).
  Where the title is \<open><!--\<close>, a comment begins inside the title that nothing ends: it
  takes in the rest of the markup, the close button included.
\<close>

definition example_parser :: "string \<Rightarrow> nat \<Rightarrow> string \<times> element list" where
  "example_parser markup n =
     (if markup = toast_content ''(information)'' ''Saved'' ''All done''
      then (indent 12 @ indent 12 @ indent 12 @ indent 8,
            [Element n ''div'' [] [''toast-icon''] ''(information)'' (Some []) [],
             Element (n + 1) ''div'' [] [''toast-content'']
               (indent 16 @ indent 16 @ indent 12) (Some [])
               [Element (n + 2) ''div'' [] [''toast-title''] ''Saved'' (Some []) [],
                Element (n + 3) ''div'' [] [''toast-message''] ''All done'' (Some []) []],
             Element (n + 4) ''button'' [(''aria-label'', ''Close notification'')]
               [''toast-close''] ''(times)'' (Some []) []])
      else if markup = toast_content ''(information)'' ''<!--'' ''All done''
      then (indent 12 @ indent 12,
            [Element n ''div'' [] [''toast-icon''] ''(information)'' (Some []) [],
             Element (n + 1) ''div'' [] [''toast-content''] (indent 16) (Some [])
               [Element (n + 2) ''div'' [] [''toast-title''] [] (Some []) []]])
      else ([], []))"

definition browser0 :: browser where
  "browser0 = \<lparr>clock = 1700, matchMedia = True, intersectionObserver = True,
     reduced_motion = False,
     getBoundingClientRect = (\<lambda>r n. \<lparr>b_top = 0, b_bottom = 0, b_left = 0, b_right = 0,
        b_width = 0, b_height = 0\<rparr>),
     innerWidth = 1024, innerHeight = 768,
     parseFragment = example_parser,
     function_text = (\<lambda>name. ''function '' @ name @ ''() { [native code] }'')\<rparr>"

section \<open>Properties of the event system\<close>

subsection \<open>Listener lists stay free of duplicates\<close>

lemma addEventListener_distinct: "distinct ls \<Longrightarrow> distinct (addEventListener ls l)"
  by (simp add: addEventListener_def)

lemma removeEventListener_distinct: "distinct ls \<Longrightarrow> distinct (removeEventListener ls l)"
  by (simp add: removeEventListener_def)

lemma run_handler_distinct:
  "run_handler ss (live, gone, stop) = (threw, live', gone', stop') \<Longrightarrow>
   distinct live \<Longrightarrow> distinct live'"
  by (induction ss "(live, gone, stop)" arbitrary: live gone stop rule: run_handler.induct)
     (auto simp: addEventListener_distinct removeEventListener_distinct)

lemma inner_invoke_distinct:
  "inner_invoke P ty d snap (live, gone, log) = (live', gone', log') \<Longrightarrow>
   distinct live \<Longrightarrow> distinct live'"
proof (induction snap arbitrary: live gone log)
  case Nil
  then show ?case by simp
next
  case (Cons l snap)
  obtain t c where l: "l = (t, c)" by (cases l)
  show ?case
  proof (cases "t \<noteq> ty \<or> (t, c) \<in> set gone")
    case True
    with Cons.prems l show ?thesis using Cons.IH by auto
  next
    case False
    obtain threw l1 g1 stop where
      r: "run_handler (P c) (live, gone, False) = (threw, l1, g1, stop)"
      by (cases "run_handler (P c) (live, gone, False)")
    from run_handler_distinct [OF r Cons.prems(2)] have d1: "distinct l1" .
    show ?thesis
    proof (cases stop)
      case True
      with Cons.prems l False r d1 show ?thesis by auto
    next
      case nostop: False
      with Cons.prems l False r d1 show ?thesis using Cons.IH by auto
    qed
  qed
qed

lemma on_distinct: "distinct ls \<Longrightarrow> distinct (fst (on ls event cb))"
  by (simp add: on_def addEventListener_distinct)

lemma off_distinct: "distinct ls \<Longrightarrow> distinct (fst (off ls event cb))"
  by (simp add: off_def removeEventListener_distinct)

lemma emit_distinct:
  "distinct ls \<Longrightarrow> distinct (listeners_after (emit P now ls event data))"
proof -
  assume d: "distinct ls"
  obtain live gone log where
    r: "inner_invoke P event (event_detail now data) ls (ls, [], []) = (live, gone, log)"
    by (cases "inner_invoke P event (event_detail now data) ls (ls, [], [])")
  from inner_invoke_distinct [OF r d] r show ?thesis
    by (simp add: listeners_after_def emit_def dispatchEvent_def)
qed

subsection \<open>What a walk calls\<close>

lemma delivered_to_append: "delivered_to (xs @ ys) = delivered_to xs @ delivered_to ys"
  by (induction xs rule: delivered_to.induct) auto

lemma delivered_to_iff: "c \<in> set (delivered_to log) \<longleftrightarrow> (\<exists>t x. Delivered c t x \<in> set log)"
  by (induction log rule: delivered_to.induct) auto

lemma run_handler_threw: "fst (run_handler ss s) = (Raise \<in> set ss)"
  by (induction ss s rule: run_handler.induct) auto




lemma inner_invoke_entries:
  "inner_invoke P ty d snap (live, gone, log) = (live', gone', log') \<Longrightarrow>
   \<exists>new. log' = log @ new \<and>
     (\<forall>c t x. Delivered c t x \<in> set new \<longrightarrow> t = ty \<and> x = d \<and> (ty, c) \<in> set snap) \<and>
     (\<forall>c. Reported c \<in> set new \<longleftrightarrow> c \<in> set (delivered_to new) \<and> Raise \<in> set (P c)) \<and>
     subseq (delivered_to new) (subscribers snap ty)"
proof (induction snap arbitrary: live gone log)
  case Nil
  then show ?case by (simp add: subscribers_def)
next
  case (Cons l snap)
  obtain t c where l: "l = (t, c)" by (cases l)
  show ?case
  proof (cases "t \<noteq> ty \<or> (t, c) \<in> set gone")
    case True
    with Cons.prems l have "inner_invoke P ty d snap (live, gone, log) = (live', gone', log')"
      by auto
    from Cons.IH [OF this] obtain new where
      n: "log' = log @ new"
         "\<forall>c t x. Delivered c t x \<in> set new \<longrightarrow> t = ty \<and> x = d \<and> (ty, c) \<in> set snap"
         "\<forall>c. Reported c \<in> set new \<longleftrightarrow> c \<in> set (delivered_to new) \<and> Raise \<in> set (P c)"
         "subseq (delivered_to new) (subscribers snap ty)"
      by blast
    have "subseq (delivered_to new) (subscribers (l # snap) ty)"
      using n(4) by (auto simp: subscribers_def l)
    with n show ?thesis by auto
  next
    case False
    obtain threw l1 g1 stop where
      r: "run_handler (P c) (live, gone, False) = (threw, l1, g1, stop)"
      by (cases "run_handler (P c) (live, gone, False)")
    have t: "threw = (Raise \<in> set (P c))"
      using run_handler_threw [of "P c" "(live, gone, False)"] r by simp
    let ?mid = "Delivered c ty d # (if threw then [Reported c] else [])"
    have sub: "subscribers (l # snap) ty = c # subscribers snap ty"
      using l False by (simp add: subscribers_def)
    show ?thesis
    proof (cases stop)
      case True
      with Cons.prems l False r have 1: "log' = log @ ?mid" by auto
      have 2: "\<forall>c' t x. Delivered c' t x \<in> set ?mid \<longrightarrow>
          t = ty \<and> x = d \<and> (ty, c') \<in> set (l # snap)"
        using l False by auto
      have 3: "\<forall>c'. Reported c' \<in> set ?mid \<longleftrightarrow>
          c' \<in> set (delivered_to ?mid) \<and> Raise \<in> set (P c')"
        using t by auto
      have 4: "subseq (delivered_to ?mid) (subscribers (l # snap) ty)"
        unfolding sub by simp
      from 1 2 3 4 show ?thesis by blast
    next
      case nostop: False
      with Cons.prems l False r
      have "inner_invoke P ty d snap (l1, g1, log @ ?mid) = (live', gone', log')"
        by auto
      from Cons.IH [OF this] obtain new where
        n: "log' = (log @ ?mid) @ new"
           "\<forall>c t x. Delivered c t x \<in> set new \<longrightarrow> t = ty \<and> x = d \<and> (ty, c) \<in> set snap"
           "\<forall>c. Reported c \<in> set new \<longleftrightarrow> c \<in> set (delivered_to new) \<and> Raise \<in> set (P c)"
           "subseq (delivered_to new) (subscribers snap ty)"
        by blast
      have 1: "log' = log @ (?mid @ new)" using n(1) by simp
      have 2: "\<forall>c' t x. Delivered c' t x \<in> set (?mid @ new) \<longrightarrow>
          t = ty \<and> x = d \<and> (ty, c') \<in> set (l # snap)"
        using n(2) l False by auto
      have 3: "\<forall>c'. Reported c' \<in> set (?mid @ new) \<longleftrightarrow>
          c' \<in> set (delivered_to (?mid @ new)) \<and> Raise \<in> set (P c')"
        using n(3) t by (auto simp: delivered_to_append)
      have 4: "subseq (delivered_to (?mid @ new)) (subscribers (l # snap) ty)"
        unfolding sub using n(4) by simp
      from 1 2 3 4 show ?thesis by blast
    qed
  qed
qed




lemma emit_trace:
  "inner_invoke P event (event_detail now data) ls (ls, [], []) = (live, gone, log) \<Longrightarrow>
   trace (emit P now ls event data) = log \<and> listeners_after (emit P now ls event data) = live"
  by (simp add: trace_def listeners_after_def emit_def dispatchEvent_def)

lemma emit_entries:
  "Delivered c t x \<in> set (trace (emit P now ls event data)) \<Longrightarrow>
   t = event \<and> x = event_detail now data \<and> (event, c) \<in> set ls"
proof -
  assume a: "Delivered c t x \<in> set (trace (emit P now ls event data))"
  obtain live gone log where
    r: "inner_invoke P event (event_detail now data) ls (ls, [], []) = (live, gone, log)"
    by (cases "inner_invoke P event (event_detail now data) ls (ls, [], [])")
  from a emit_trace [OF r] have "Delivered c t x \<in> set log" by simp
  with inner_invoke_entries [OF r] show ?thesis by auto
qed

lemma emit_not_subscribed:
  "(event, c) \<notin> set ls \<Longrightarrow> c \<notin> set (delivered_to (trace (emit P now ls event data)))"
  using emit_entries [of c _ _ P now ls event data] by (auto simp: delivered_to_iff)


subsection \<open>Delivery\<close>




subsection \<open>Unsubscribing\<close>

text \<open>
  C3, as the code has it. \<open>on\<close> returns the framework instance; a subscription is
  cancelled by \<open>off\<close> with the same event name and the same callback. On a listener list
  without duplicates (every list that \<open>on\<close>, \<open>off\<close> and \<open>emit\<close> make from the empty one
  is), \<open>off\<close> removes the listener of that name and callback and leaves every other
  listener where it was; an \<open>emit\<close> after it does not call the callback; a second \<open>off\<close>
  changes nothing; and \<open>on\<close> followed by \<open>off\<close> gives back the list there was, if the
  callback was not subscribed before.
\<close>

theorem off_removes_that_listener:
  assumes "distinct ls"
  shows "snd (on ls event cb) = This \<and>
         fst (off ls event cb) = filter (\<lambda>l. l \<noteq> (event, cb)) ls \<and>
         cb \<notin> set (delivered_to (trace (emit P now (fst (off ls event cb)) event data))) \<and>
         fst (off (fst (off ls event cb)) event cb) = fst (off ls event cb) \<and>
         ((event, cb) \<notin> set ls \<longrightarrow> fst (off (fst (on ls event cb)) event cb) = ls)"
proof -
  have "remove1 (event, cb) ls = removeAll (event, cb) ls"
    using assms by (rule distinct_remove1_removeAll)
  also have "\<dots> = filter (\<lambda>l. l \<noteq> (event, cb)) ls"
    by (induction ls) auto
  finally have f: "fst (off ls event cb) = filter (\<lambda>l. l \<noteq> (event, cb)) ls"
    by (simp add: off_def removeEventListener_def)
  have g: "(event, cb) \<notin> set (fst (off ls event cb))" unfolding f by simp
  have "cb \<notin> set (delivered_to (trace (emit P now (fst (off ls event cb)) event data)))"
    using g by (rule emit_not_subscribed)
  moreover have "fst (off (fst (off ls event cb)) event cb) = fst (off ls event cb)"
    using g by (simp add: off_def removeEventListener_def remove1_idem)
  moreover have "fst (off (fst (on ls event cb)) event cb) = ls" if "(event, cb) \<notin> set ls"
    using that
    by (simp add: on_def off_def addEventListener_def removeEventListener_def
        remove1_append remove1_idem)
  ultimately show ?thesis using f by (simp add: on_def)
qed

theorem off_removes_that_listener_witness:
  "distinct [(''x:changed'', 0::nat), (''x:changed'', 1)] \<and>
   fst (off [(''x:changed'', 0), (''x:changed'', 1)] ''x:changed'' 0) = [(''x:changed'', 1)] \<and>
   0 \<notin> set (delivered_to (trace (emit (\<lambda>c. []) 7
           (fst (off [(''x:changed'', 0), (''x:changed'', 1)] ''x:changed'' 0))
           ''x:changed'' None))) \<and>
   fst (off (fst (off [(''x:changed'', 0), (''x:changed'', 1)] ''x:changed'' 0))
     ''x:changed'' 0) = [(''x:changed'', 1)] \<and>
   (''x:changed'', 2) \<notin> set [(''x:changed'', 0::nat), (''x:changed'', 1)] \<and>
   fst (off (fst (on [(''x:changed'', 0), (''x:changed'', 1)] ''x:changed'' 2))
     ''x:changed'' 2) = [(''x:changed'', 0), (''x:changed'', 1)]"
proof -
  have d: "distinct [(''x:changed'', 0::nat), (''x:changed'', 1)]" by simp
  have n: "(''x:changed'', 2) \<notin> set [(''x:changed'', 0::nat), (''x:changed'', 1)]" by simp
  from off_removes_that_listener [OF d, of "''x:changed''" 2] n
  have r: "fst (off (fst (on [(''x:changed'', 0), (''x:changed'', 1)] ''x:changed'' 2))
     ''x:changed'' 2) = [(''x:changed'', 0), (''x:changed'', 1)]"
    by blast
  from off_removes_that_listener [OF d, of "''x:changed''" 0 "\<lambda>c. []" 7 None] d n r
  show ?thesis by (simp add: off_def removeEventListener_def)
qed

text \<open>
  The claim as it is written fails: what \<open>on\<close> returns is the instance, and the instance
  has no \<open>cancel\<close>, so \<open>on(...).cancel()\<close> throws.
\<close>

theorem on_returns_no_subscription_counterexample:
  "snd (on [] ''x:changed'' 0) = This \<and>
   call_member (snd (on [] ''x:changed'' 0)) ''cancel'' = Some TypeError"
  by (simp add: on_def call_member_def EasyCSSEnhanced_methods_def)

subsection \<open>Callbacks that throw\<close>




subsection \<open>The payload\<close>

text \<open>
  C7, as the code has it. The \<open>detail\<close> handed to a subscriber holds every key of the
  caller's payload other than \<open>timestamp\<close> with the caller's value, and a \<open>timestamp\<close>
  that is a number.
\<close>

theorem emit_merges_payload:
  assumes "Delivered c t x \<in> set (trace (emit P now ls event (Some m)))"
  shows "(\<forall>k v. k \<noteq> ''timestamp'' \<longrightarrow> m k = Some v \<longrightarrow> x k = Some v) \<and>
         (\<exists>n. x ''timestamp'' = Some (JNum n))"
  using emit_entries [OF assms] by (auto simp: event_detail_def)

theorem emit_merges_payload_witness:
  "Delivered 0 ''x:changed'' [''v'' \<mapsto> JNum 1, ''timestamp'' \<mapsto> JNum 42]
     \<in> set (trace (emit (\<lambda>c. []) 42 [(''x:changed'', 0)] ''x:changed''
              (Some [''v'' \<mapsto> JNum 1])))
   \<and> [''v'' \<mapsto> JNum 1, ''timestamp'' \<mapsto> JNum 42] ''v'' = Some (JNum 1)
   \<and> (\<exists>n. [''v'' \<mapsto> JNum 1, ''timestamp'' \<mapsto> JNum 42] ''timestamp'' = Some (JNum n))"
proof -
  have h: "Delivered 0 ''x:changed'' [''v'' \<mapsto> JNum 1, ''timestamp'' \<mapsto> JNum 42]
     \<in> set (trace (emit (\<lambda>c. []) 42 [(''x:changed'', 0)] ''x:changed''
              (Some [''v'' \<mapsto> JNum 1])))"
    by (simp add: trace_def emit_def dispatchEvent_def event_detail_def)
  from emit_merges_payload [OF h] h show ?thesis by simp
qed

text \<open>
  The claim as it is written fails for the key \<open>timestamp\<close> itself: the caller passes
  \<open>{timestamp: 'yesterday'}\<close> and the subscriber is handed the clock reading instead.
\<close>

theorem emit_replaces_caller_timestamp_counterexample:
  "Delivered 0 ''x:changed'' [''timestamp'' \<mapsto> JNum 42]
     \<in> set (trace (emit (\<lambda>c. []) 42 [(''x:changed'', 0)] ''x:changed''
              (Some [''timestamp'' \<mapsto> JStr ''yesterday''])))
   \<and> [''timestamp'' \<mapsto> JStr ''yesterday''] ''timestamp'' = Some (JStr ''yesterday'')
   \<and> [''timestamp'' \<mapsto> JNum 42] ''timestamp'' \<noteq> Some (JStr ''yesterday'')"
  by (simp add: trace_def emit_def dispatchEvent_def event_detail_def)

text \<open>
  C10. For every \<open>emit(name, data)\<close>, the \<open>detail\<close> handed to a subscriber is \<open>data\<close> with
  its \<open>timestamp\<close> property set to the clock reading taken by \<open>emit\<close>, whether \<open>data\<close> had
  a \<open>timestamp\<close> or not; every other property of \<open>data\<close> is passed through unchanged and
  nothing else is added.
\<close>

theorem emit_timestamp_overwrites:
  assumes "Delivered c t x \<in> set (trace (emit P now ls event data))"
  shows "x ''timestamp'' = Some (JNum now) \<and>
         (\<forall>k. k \<noteq> ''timestamp'' \<longrightarrow>
            x k = (case data of None \<Rightarrow> None | Some m \<Rightarrow> m k))"
  using emit_entries [OF assms] by (auto simp: event_detail_def split: option.splits)

theorem emit_timestamp_overwrites_witness:
  "Delivered 0 ''x:changed'' [''v'' \<mapsto> JNum 1, ''timestamp'' \<mapsto> JNum 42]
     \<in> set (trace (emit (\<lambda>c. []) 42 [(''x:changed'', 0)] ''x:changed''
              (Some [''v'' \<mapsto> JNum 1, ''timestamp'' \<mapsto> JStr ''old''])))
   \<and> [''v'' \<mapsto> JNum 1, ''timestamp'' \<mapsto> JNum 42] ''timestamp'' = Some (JNum 42)
   \<and> [''v'' \<mapsto> JNum 1, ''timestamp'' \<mapsto> JNum 42] ''v'' = Some (JNum 1)"
proof -
  have h: "Delivered 0 ''x:changed'' [''v'' \<mapsto> JNum 1, ''timestamp'' \<mapsto> JNum 42]
     \<in> set (trace (emit (\<lambda>c. []) 42 [(''x:changed'', 0)] ''x:changed''
              (Some [''v'' \<mapsto> JNum 1, ''timestamp'' \<mapsto> JStr ''old''])))"
    by (simp add: trace_def emit_def dispatchEvent_def event_detail_def)
  from emit_timestamp_overwrites [OF h] h show ?thesis by simp
qed

section \<open>Properties of the activation passes\<close>

subsection \<open>Registering listeners\<close>

lemma new_EasyCSSEnhanced_fields:
  "dom (new_EasyCSSEnhanced store document) = document \<and>
   registered (new_EasyCSSEnhanced store document) = [] \<and>
   observed (new_EasyCSSEnhanced store document) = [] \<and>
   observers (new_EasyCSSEnhanced store document) = [] \<and>
   timers (new_EasyCSSEnhanced store document) = [] \<and>
   next_node (new_EasyCSSEnhanced store document) = fresh_id document \<and>
   theme (new_EasyCSSEnhanced store document) = or_else (store ''easycss-theme'') ''light'' \<and>
   localStorage (new_EasyCSSEnhanced store document) = store \<and>
   storage_log (new_EasyCSSEnhanced store document) = [GetItem ''easycss-theme'']"
  by (simp add: new_EasyCSSEnhanced_def getItem_def)

lemma new_EasyCSSEnhanced_fresh: "fresh (new_EasyCSSEnhanced store document)"
  by (simp add: fresh_def new_EasyCSSEnhanced_fields)

lemma listen_fresh: "fresh w \<Longrightarrow> fresh (listen tg ty code w)"
  by (auto simp: fresh_def listen_def addEventListener_def less_Suc_eq)

lemma listen_dom: "dom (listen tg ty code w) = dom w"
  by (simp add: listen_def)

lemma listen_registered:
  "fresh w \<Longrightarrow> registered (listen tg ty code w) =
     registered w @ [\<lparr>reg_target = tg, reg_type = ty, reg_fn = next_fn w, reg_code = code\<rparr>]"
  by (auto simp: fresh_def listen_def addEventListener_def)

lemma listen_bound:
  "fresh w \<Longrightarrow> bound q (listen tg ty code w) = bound q w + (if q tg ty code then 1 else 0)"
  by (simp add: bound_def listen_registered)

lemma fold_listen:
  "fresh w \<Longrightarrow>
   fresh (fold (\<lambda>x. listen (tg x) ty (code x)) xs w) \<and>
   dom (fold (\<lambda>x. listen (tg x) ty (code x)) xs w) = dom w \<and>
   bound q (fold (\<lambda>x. listen (tg x) ty (code x)) xs w) =
     bound q w + length (filter (\<lambda>x. q (tg x) ty (code x)) xs)"
proof (induction xs arbitrary: w)
  case Nil
  then show ?case by simp
next
  case (Cons x xs)
  from Cons.IH [OF listen_fresh [OF Cons.prems]] Cons.prems
  show ?case by (simp add: listen_bound listen_dom)
qed

lemma bind_modal_keeps:
  assumes "fresh w"
  shows "fresh (bind_modal m w) \<and> dom (bind_modal m w) = dom w \<and>
         trigger_bindings (bind_modal m w) t = trigger_bindings w t"
proof -
  let ?q = "\<lambda>tg ty code. tg = Node t \<and> ty = ''click'' \<and> code = ModalTriggerClick t"
  let ?w1 = "fold (\<lambda>button. listen (Node button) ''click'' (ModalCloseClick m))
     (querySelectorAll_in (dom w) m (HasAttr ''data-modal-close'')) w"
  let ?w2 = "listen Document ''keydown'' (ModalEscapeKeydown m) ?w1"
  from fold_listen [OF assms, where tg = Node and ty = "''click''"
      and code = "\<lambda>b. ModalCloseClick m" and q = ?q]
  have 1: "fresh ?w1" "dom ?w1 = dom w" "bound ?q ?w1 = bound ?q w" by simp_all
  have 2: "fresh ?w2" "dom ?w2 = dom w" "bound ?q ?w2 = bound ?q w"
    using 1 by (simp_all add: listen_fresh listen_bound listen_dom)
  show ?thesis
    unfolding bind_modal_def Let_def trigger_bindings_def using 2
    by (auto split: option.splits simp: listen_fresh listen_bound listen_dom)
qed

lemma fold_bind_modal_keeps:
  "fresh w \<Longrightarrow>
   fresh (fold bind_modal ms w) \<and> dom (fold bind_modal ms w) = dom w \<and>
   trigger_bindings (fold bind_modal ms w) t = trigger_bindings w t"
proof (induction ms arbitrary: w)
  case Nil
  then show ?case by simp
next
  case (Cons m ms)
  from bind_modal_keeps [OF Cons.prems, of m t]
  have "fresh (bind_modal m w)" "dom (bind_modal m w) = dom w"
       "trigger_bindings (bind_modal m w) t = trigger_bindings w t" by simp_all
  with Cons.IH [of "bind_modal m w"] show ?case by simp
qed

lemma initModals_step:
  assumes "fresh w"
  shows "fresh (initModals w) \<and> dom (initModals w) = dom w \<and>
         trigger_bindings (initModals w) t =
           trigger_bindings w t +
           length (filter (\<lambda>x. x = t)
             (querySelectorAll (dom w) (HasAttr ''data-modal-trigger'')))"
proof -
  let ?q = "\<lambda>tg ty code. tg = Node t \<and> ty = ''click'' \<and> code = ModalTriggerClick t"
  let ?w1 = "fold (\<lambda>trigger. listen (Node trigger) ''click'' (ModalTriggerClick trigger))
          (querySelectorAll (dom w) (HasAttr ''data-modal-trigger'')) w"
  from fold_listen [OF assms, where tg = Node and ty = "''click''"
      and code = ModalTriggerClick and q = ?q]
  have 1: "fresh ?w1" "dom ?w1 = dom w"
    "trigger_bindings ?w1 t = trigger_bindings w t +
       length (filter (\<lambda>x. x = t) (querySelectorAll (dom w) (HasAttr ''data-modal-trigger'')))"
    by (simp_all add: trigger_bindings_def conj_commute cong: conj_cong)
  from fold_bind_modal_keeps [OF 1(1), of _ t] 1 show ?thesis
    unfolding initModals_def Let_def by simp
qed

lemma initModals_passes:
  assumes "fresh w"
  shows "fresh ((initModals ^^ k) w) \<and> dom ((initModals ^^ k) w) = dom w \<and>
         trigger_bindings ((initModals ^^ k) w) t =
           trigger_bindings w t +
           k * length (filter (\<lambda>x. x = t)
                 (querySelectorAll (dom w) (HasAttr ''data-modal-trigger'')))"
proof (induction k)
  case 0
  show ?case using assms by simp
next
  case (Suc k)
  from initModals_step [of "(initModals ^^ k) w" t] Suc
  show ?case by (simp add: algebra_simps)
qed

lemma querySelectorAll_distinct: "unique_ids r \<Longrightarrow> distinct (querySelectorAll r sel)"
  by (simp add: unique_ids_def querySelectorAll_def distinct_map_filter)

lemma occurs_once: "distinct xs \<Longrightarrow> x \<in> set xs \<Longrightarrow> length (filter (\<lambda>y. y = x) xs) = 1"
  by (induction xs) (auto simp: filter_empty_conv)

lemma occurs_never: "x \<notin> set xs \<Longrightarrow> length (filter (\<lambda>y. y = x) xs) = 0"
  by (induction xs) auto

text \<open>
  C1, as the code has it. \<open>initModals\<close> keeps no record of what it has bound: each pass
  registers one more click listener on every element that matches
  \<open>[data-modal-trigger]\<close>, and none on an element that does not match. In a document
  whose elements are distinct objects, an element that matches carries \<open>k\<close> more of these
  listeners after \<open>k\<close> passes: one after the single pass that the constructor starts, two
  after a second pass.
\<close>

theorem initModals_binds_on_every_pass:
  assumes "fresh w" and "unique_ids (dom w)"
  shows "trigger_bindings ((initModals ^^ k) w) t =
           trigger_bindings w t +
           (if t \<in> set (querySelectorAll (dom w) (HasAttr ''data-modal-trigger''))
            then k else 0)"
proof (cases "t \<in> set (querySelectorAll (dom w) (HasAttr ''data-modal-trigger''))")
  case True
  from occurs_once [OF querySelectorAll_distinct [OF assms(2)] True]
       initModals_passes [OF assms(1), of k t] True
  show ?thesis by simp
next
  case False
  from occurs_never [OF False] initModals_passes [OF assms(1), of k t] False
  show ?thesis by simp
qed

theorem initModals_binds_on_every_pass_witness:
  "fresh (new_EasyCSSEnhanced Map.empty modal_page) \<and>
   unique_ids (dom (new_EasyCSSEnhanced Map.empty modal_page)) \<and>
   2 \<in> set (querySelectorAll (dom (new_EasyCSSEnhanced Map.empty modal_page))
              (HasAttr ''data-modal-trigger'')) \<and>
   trigger_bindings ((initModals ^^ 3) (new_EasyCSSEnhanced Map.empty modal_page)) 2 = 3"
proof -
  let ?w = "new_EasyCSSEnhanced Map.empty modal_page"
  have f: "fresh ?w" by (rule new_EasyCSSEnhanced_fresh)
  have u: "unique_ids (dom ?w)"
    by (simp add: new_EasyCSSEnhanced_fields unique_ids_def modal_page_def)
  have m: "2 \<in> set (querySelectorAll (dom ?w) (HasAttr ''data-modal-trigger''))"
    by (simp add: new_EasyCSSEnhanced_fields querySelectorAll_def modal_page_def)
  have z: "trigger_bindings ?w 2 = 0"
    by (simp add: trigger_bindings_def bound_def new_EasyCSSEnhanced_fields)
  from initModals_binds_on_every_pass [OF f u, of 3 2] m z f u show ?thesis by simp
qed

text \<open>
  The claim as it is written fails: on a page with one trigger, a second pass leaves two
  click listeners on the trigger, each of which opens the modal.
\<close>

theorem initModals_twice_binds_twice_counterexample:
  "querySelectorAll modal_page (HasAttr ''data-modal-trigger'') = [2] \<and>
   trigger_bindings (initModals (new_EasyCSSEnhanced Map.empty modal_page)) 2 = 1 \<and>
   trigger_bindings (initModals (initModals (new_EasyCSSEnhanced Map.empty modal_page))) 2 = 2"
  by (simp add: trigger_bindings_def bound_def initModals_def bind_modal_def
      new_EasyCSSEnhanced_def modal_page_def querySelectorAll_def querySelectorAll_in_def
      querySelector_in_def lookup_def descendants_def listen_def addEventListener_def
      getItem_def)

subsection \<open>A callback that throws\<close>

lemma nodes_update_style:
  "map (\<lambda>e. (el_id e, el_style e \<noteq> None)) (nodes (update n (with_style g) r)) =
   map (\<lambda>e. (el_id e, el_style e \<noteq> None)) (nodes r)"
proof (induction r)
  case (Element i t a c x s ks)
  have "concat (map (\<lambda>k. map (\<lambda>e. (el_id e, el_style e \<noteq> None))
                       (nodes (update n (with_style g) k))) ks) =
        concat (map (\<lambda>k. map (\<lambda>e. (el_id e, el_style e \<noteq> None)) (nodes k)) ks)"
    using Element.IH by (metis (mono_tags, lifting) map_eq_conv)
  then show ?case by (simp add: map_concat comp_def)
qed

lemma shape_set_style: "shape (set_style n k v r) = shape r"
  unfolding shape_def set_style_def by (rule nodes_update_style)

lemma find_shape:
  "(case find (\<lambda>e. el_id e = m) xs of None \<Rightarrow> False | Some e \<Rightarrow> el_style e \<noteq> None) =
   (case find (\<lambda>p. fst p = m) (map (\<lambda>e. (el_id e, el_style e \<noteq> None)) xs) of
      None \<Rightarrow> False | Some p \<Rightarrow> snd p)"
  by (induction xs) auto

lemma has_style_shape:
  "has_style r m = (case find (\<lambda>p. fst p = m) (shape r) of None \<Rightarrow> False | Some p \<Rightarrow> snd p)"
  unfolding has_style_def lookup_def shape_def by (rule find_shape)

lemma has_style_set_style: "has_style (set_style n k v r) m = has_style r m"
  by (simp add: has_style_shape shape_set_style)

lemma forEach_append:
  "forEach (xs @ ys) f s =
     (case forEach xs f s of Returned s' \<Rightarrow> forEach ys f s' | Thrown e s' \<Rightarrow> Thrown e s')"
  by (induction xs arbitrary: s) (auto split: completion.splits)

lemma forEach_bind_animated:
  assumes "matchMedia env" "\<not> reduced_motion env"
  shows "\<forall>y \<in> set xs. has_style (dom w) y \<Longrightarrow>
    \<exists>w'. forEach xs (bind_animated env) w = Returned w' \<and>
         shape (dom w') = shape (dom w) \<and> observed w' = observed w @ xs \<and>
         observers w' = observers w \<and> registered w' = registered w"
proof (induction xs arbitrary: w)
  case Nil
  then show ?case by simp
next
  case (Cons x xs)
  let ?w1 = "w\<lparr>dom := set_style x ''animationPlayState'' ''paused'' (dom w),
                 observed := observed w @ [x]\<rparr>"
  have b: "bind_animated env x w = Returned ?w1"
    using assms Cons.prems by (simp add: bind_animated_def)
  have "\<forall>y \<in> set xs. has_style (dom ?w1) y"
    using Cons.prems by (simp add: has_style_set_style)
  from Cons.IH [OF this] obtain w' where
    "forEach xs (bind_animated env) ?w1 = Returned w'" "shape (dom w') = shape (dom ?w1)"
    "observed w' = observed ?w1 @ xs" "observers w' = observers ?w1"
    "registered w' = registered ?w1" by blast
  then show ?case using b by (simp add: shape_set_style)
qed

text \<open>
  C5, as the code has it. No init function catches what a callback of its loop throws,
  and nothing is logged. In \<open>initAnimationTriggers\<close>, whose callback can throw (when
  \<open>window.matchMedia\<close> is missing, or on a matched element without a style object), the
  throw ends the loop: the elements matched before the failing one stay bound (paused and
  observed), the failing element and those after it are left unbound, the observer is
  not stored, and the \<open>TypeError\<close> leaves the function.
\<close>

theorem initAnimationTriggers_throw_ends_pass:
  assumes "intersectionObserver env"
    and "querySelectorAll (dom w) (ClassContains ''animate-'') = xs @ x # ys"
  shows "(\<not> matchMedia env \<longrightarrow> initAnimationTriggers env w = Thrown TypeError w) \<and>
         (matchMedia env \<and> \<not> reduced_motion env \<and> (\<forall>y \<in> set xs. has_style (dom w) y) \<and>
          \<not> has_style (dom w) x \<longrightarrow>
            (\<exists>w'. initAnimationTriggers env w = Thrown TypeError w' \<and>
                  observed w' = observed w @ xs \<and> observers w' = observers w \<and>
                  registered w' = registered w))"
proof (intro conjI impI)
  assume "\<not> matchMedia env"
  then have "forEach (xs @ x # ys) (bind_animated env) w = Thrown TypeError w"
    by (cases xs) (simp_all add: bind_animated_def)
  then show "initAnimationTriggers env w = Thrown TypeError w"
    using assms by (simp add: initAnimationTriggers_def)
next
  assume a: "matchMedia env \<and> \<not> reduced_motion env \<and>
      (\<forall>y \<in> set xs. has_style (dom w) y) \<and> \<not> has_style (dom w) x"
  then obtain w1 where w1: "forEach xs (bind_animated env) w = Returned w1"
    "shape (dom w1) = shape (dom w)" "observed w1 = observed w @ xs"
    "observers w1 = observers w" "registered w1 = registered w"
    using forEach_bind_animated [of env xs w] by blast
  have "\<not> has_style (dom w1) x" using a w1(2) by (simp add: has_style_shape)
  then have "bind_animated env x w1 = Thrown TypeError w1"
    using a by (simp add: bind_animated_def)
  then have "forEach (xs @ x # ys) (bind_animated env) w = Thrown TypeError w1"
    using w1(1) by (simp add: forEach_append)
  then have "initAnimationTriggers env w = Thrown TypeError w1"
    using assms by (simp add: initAnimationTriggers_def)
  with w1 show "\<exists>w'. initAnimationTriggers env w = Thrown TypeError w' \<and>
                  observed w' = observed w @ xs \<and> observers w' = observers w \<and>
                  registered w' = registered w" by simp
qed

theorem initAnimationTriggers_throw_ends_pass_witness:
  "intersectionObserver browser0 \<and>
   querySelectorAll (dom (new_EasyCSSEnhanced Map.empty animated_page))
     (ClassContains ''animate-'') = [2] @ 3 # [4] \<and>
   matchMedia browser0 \<and> \<not> reduced_motion browser0 \<and>
   has_style (dom (new_EasyCSSEnhanced Map.empty animated_page)) 2 \<and>
   \<not> has_style (dom (new_EasyCSSEnhanced Map.empty animated_page)) 3 \<and>
   (\<exists>w'. initAnimationTriggers browser0 (new_EasyCSSEnhanced Map.empty animated_page) =
            Thrown TypeError w' \<and> observed w' = [2] \<and> observers w' = []) \<and>
   \<not> matchMedia (browser0\<lparr>matchMedia := False\<rparr>) \<and>
   initAnimationTriggers (browser0\<lparr>matchMedia := False\<rparr>)
       (new_EasyCSSEnhanced Map.empty animated_page) =
     Thrown TypeError (new_EasyCSSEnhanced Map.empty animated_page)"
proof -
  let ?w = "new_EasyCSSEnhanced Map.empty animated_page"
  have io: "intersectionObserver browser0" by (simp add: browser0_def)
  have q: "querySelectorAll (dom ?w) (ClassContains ''animate-'') = [2] @ 3 # [4]"
    by (simp add: new_EasyCSSEnhanced_fields querySelectorAll_def animated_page_def)
  have m: "matchMedia browser0 \<and> \<not> reduced_motion browser0" by (simp add: browser0_def)
  have s2: "has_style (dom ?w) 2"
    by (simp add: new_EasyCSSEnhanced_fields has_style_def lookup_def animated_page_def)
  have s3: "\<not> has_style (dom ?w) 3"
    by (simp add: new_EasyCSSEnhanced_fields has_style_def lookup_def animated_page_def)
  from initAnimationTriggers_throw_ends_pass [OF io q] m s2 s3
  have "\<exists>w'. initAnimationTriggers browser0 ?w = Thrown TypeError w' \<and>
      observed w' = observed ?w @ [2] \<and> observers w' = observers ?w \<and>
      registered w' = registered ?w"
    by simp
  then have "\<exists>w'. initAnimationTriggers browser0 ?w = Thrown TypeError w' \<and>
      observed w' = [2] \<and> observers w' = []"
    by (auto simp: new_EasyCSSEnhanced_fields)
  moreover have "initAnimationTriggers (browser0\<lparr>matchMedia := False\<rparr>) ?w =
      Thrown TypeError ?w"
    using initAnimationTriggers_throw_ends_pass
      [of "browser0\<lparr>matchMedia := False\<rparr>" ?w "[2]" 3 "[4]"] io q
    by simp
  ultimately show ?thesis using io q m s2 s3 by simp
qed

text \<open>
  The claim as it is written fails: of the three matched elements \<open>2\<close>, \<open>3\<close>, \<open>4\<close> the
  second has no style object. The pass ends with the \<open>TypeError\<close>; element \<open>4\<close> is left
  unbound although nothing is wrong with it.
\<close>

theorem initAnimationTriggers_stops_counterexample:
  "querySelectorAll animated_page (ClassContains ''animate-'') = [2, 3, 4] \<and>
   has_style animated_page 4 \<and>
   initAnimationTriggers browser0 (new_EasyCSSEnhanced Map.empty animated_page) =
     Thrown TypeError
       ((new_EasyCSSEnhanced Map.empty animated_page)
          \<lparr>dom := set_style 2 ''animationPlayState'' ''paused'' animated_page,
           observed := [2]\<rparr>)"
  by (simp add: initAnimationTriggers_def browser0_def querySelectorAll_def
      new_EasyCSSEnhanced_def getItem_def bind_animated_def has_style_def lookup_def
      set_style_def animated_page_def)

text \<open>
  The callback of \<open>initToasts\<close> only registers a listener and cannot throw: every matched
  trigger has its click listener afterwards, whether the function then returns or fails
  for want of a body to put the container in.
\<close>

lemma initToasts_registered:
  "registered (state_of (initToasts w)) =
   registered (fold (\<lambda>trigger. listen (Node trigger) ''click'' (ToastTriggerClick trigger))
     (querySelectorAll (dom w) (HasAttr ''data-toast-trigger'')) w)"
  by (simp add: initToasts_def Let_def split: option.splits)

lemma initToasts_binds_every_trigger:
  assumes "fresh w" and "unique_ids (dom w)"
    and "t \<in> set (querySelectorAll (dom w) (HasAttr ''data-toast-trigger''))"
  shows "bound (\<lambda>tg ty code. tg = Node t \<and> ty = ''click'' \<and> code = ToastTriggerClick t)
           (state_of (initToasts w)) =
         bound (\<lambda>tg ty code. tg = Node t \<and> ty = ''click'' \<and> code = ToastTriggerClick t) w + 1"
proof -
  let ?q = "\<lambda>tg ty code. tg = Node t \<and> ty = ''click'' \<and> code = ToastTriggerClick t"
  let ?w1 = "fold (\<lambda>trigger. listen (Node trigger) ''click'' (ToastTriggerClick trigger))
     (querySelectorAll (dom w) (HasAttr ''data-toast-trigger'')) w"
  from fold_listen [OF assms(1), where tg = Node and ty = "''click''"
      and code = ToastTriggerClick and q = ?q]
  have "bound ?q ?w1 = bound ?q w +
      length (filter (\<lambda>x. x = t) (querySelectorAll (dom w) (HasAttr ''data-toast-trigger'')))"
    by (simp add: conj_commute cong: conj_cong)
  also have "\<dots> = bound ?q w + 1"
    using occurs_once [OF querySelectorAll_distinct [OF assms(2)] assms(3)] by simp
  finally have "bound ?q ?w1 = bound ?q w + 1" .
  moreover have "bound ?q (state_of (initToasts w)) = bound ?q ?w1"
    by (simp add: bound_def initToasts_registered)
  ultimately show ?thesis by simp
qed

lemma initToasts_binds_every_trigger_witness:
  "fresh (new_EasyCSSEnhanced Map.empty toast_page) \<and>
   unique_ids (dom (new_EasyCSSEnhanced Map.empty toast_page)) \<and>
   2 \<in> set (querySelectorAll (dom (new_EasyCSSEnhanced Map.empty toast_page))
              (HasAttr ''data-toast-trigger'')) \<and>
   bound (\<lambda>tg ty code. tg = Node 2 \<and> ty = ''click'' \<and> code = ToastTriggerClick 2)
     (state_of (initToasts (new_EasyCSSEnhanced Map.empty toast_page))) = 1"
proof -
  let ?w = "new_EasyCSSEnhanced Map.empty toast_page"
  have f: "fresh ?w" by (rule new_EasyCSSEnhanced_fresh)
  have u: "unique_ids (dom ?w)"
    by (simp add: new_EasyCSSEnhanced_fields unique_ids_def toast_page_def)
  have m: "2 \<in> set (querySelectorAll (dom ?w) (HasAttr ''data-toast-trigger''))"
    by (simp add: new_EasyCSSEnhanced_fields querySelectorAll_def toast_page_def)
  have z: "bound (\<lambda>tg ty code. tg = Node 2 \<and> ty = ''click'' \<and> code = ToastTriggerClick 2) ?w = 0"
    by (simp add: bound_def new_EasyCSSEnhanced_fields)
  from initToasts_binds_every_trigger [OF f u m] z f u m show ?thesis by simp
qed

subsection \<open>Missing structure\<close>

text \<open>
  A dropdown without a trigger or without a menu is left alone by \<open>initDropdowns\<close>: the
  callback returns before it registers anything.
\<close>

lemma bind_dropdown_incomplete:
  assumes "querySelector_in (dom w) dropdown (HasAttr ''data-dropdown-trigger'') = None \<or>
           querySelector_in (dom w) dropdown (HasClass ''dropdown-menu'') = None"
  shows "bind_dropdown env dropdown w = w"
  using assms by (auto simp: bind_dropdown_def split: option.splits)

lemma bind_dropdown_incomplete_witness:
  "querySelector_in (dom (new_EasyCSSEnhanced Map.empty dropdown_page)) 2
     (HasClass ''dropdown-menu'') = None \<and>
   bind_dropdown browser0 2 (new_EasyCSSEnhanced Map.empty dropdown_page) =
     new_EasyCSSEnhanced Map.empty dropdown_page"
proof -
  let ?w = "new_EasyCSSEnhanced Map.empty dropdown_page"
  have n: "querySelector_in (dom ?w) 2 (HasClass ''dropdown-menu'') = None"
    by (simp add: new_EasyCSSEnhanced_fields querySelector_in_def querySelectorAll_in_def
        lookup_def descendants_def dropdown_page_def)
  from bind_dropdown_incomplete [of ?w 2 browser0] n show ?thesis by simp
qed

text \<open>
  The listener of the navbar toggle has no such test for the navbar itself: whenever the
  toggle has no \<open>.navbar\<close> above it, the listener throws.
\<close>

lemma navbar_toggle_click_outside:
  "closest (dom w) toggle (HasClass ''navbar'') = None \<Longrightarrow>
   navbar_toggle_click toggle w = Thrown TypeError w"
  by (simp add: navbar_toggle_click_def)

lemma navbar_toggle_click_outside_witness:
  "closest (dom (new_EasyCSSEnhanced Map.empty navbar_page)) 2 (HasClass ''navbar'') = None \<and>
   navbar_toggle_click 2 (new_EasyCSSEnhanced Map.empty navbar_page) =
     Thrown TypeError (new_EasyCSSEnhanced Map.empty navbar_page)"
proof -
  let ?w = "new_EasyCSSEnhanced Map.empty navbar_page"
  have n: "closest (dom ?w) 2 (HasClass ''navbar'') = None"
    by (simp add: new_EasyCSSEnhanced_fields closest_def navbar_page_def)
  from navbar_toggle_click_outside [OF n] n show ?thesis by simp
qed

text \<open>
  C6 holds for the dropdown and fails for the navbar toggle, one of the three cases it
  names: on the page where the toggle \<open>2\<close> is a sibling of the navbar \<open>3\<close>, a click on the
  toggle ends in a \<open>TypeError\<close> instead of doing nothing.
\<close>

theorem navbar_toggle_click_throws:
  "querySelectorAll navbar_page (HasAttr ''data-navbar-toggle'') = [2] \<and>
   closest navbar_page 2 (HasClass ''navbar'') = None \<and>
   navbar_toggle_click 2 (initNavbarToggle (new_EasyCSSEnhanced Map.empty navbar_page)) =
     Thrown TypeError (initNavbarToggle (new_EasyCSSEnhanced Map.empty navbar_page))"
  by (simp add: navbar_toggle_click_def closest_def navbar_page_def initNavbarToggle_def
      querySelectorAll_def new_EasyCSSEnhanced_def getItem_def listen_def)

section \<open>Properties of toasts and of the theme\<close>

subsection \<open>Finding, changing and removing an element of a document\<close>

















subsection \<open>Toasts\<close>



















subsection \<open>The theme\<close>

lemma fold_dom_keeps:
  "theme (fold (\<lambda>x w. w\<lparr>dom := g x (dom w)\<rparr>) xs w) = theme w \<and>
   storage_log (fold (\<lambda>x w. w\<lparr>dom := g x (dom w)\<rparr>) xs w) = storage_log w \<and>
   localStorage (fold (\<lambda>x w. w\<lparr>dom := g x (dom w)\<rparr>) xs w) = localStorage w"
  by (induction xs arbitrary: w) simp_all

lemma updateThemeIcon_keeps:
  "theme (updateThemeIcon th w) = theme w \<and>
   storage_log (updateThemeIcon th w) = storage_log w \<and>
   localStorage (updateThemeIcon th w) = localStorage w"
  unfolding updateThemeIcon_def by (rule fold_dom_keeps)

lemma fold_listen_keeps:
  "theme (fold (\<lambda>x. listen (tg x) ty (code x)) xs w) = theme w \<and>
   storage_log (fold (\<lambda>x. listen (tg x) ty (code x)) xs w) = storage_log w \<and>
   localStorage (fold (\<lambda>x. listen (tg x) ty (code x)) xs w) = localStorage w"
  by (induction xs arbitrary: w) (simp_all add: listen_def)

lemma initTheme_keeps:
  "theme (initTheme env w) = theme w \<and> storage_log (initTheme env w) = storage_log w \<and>
   localStorage (initTheme env w) = localStorage w"
  by (simp add: initTheme_def Let_def fold_listen_keeps updateThemeIcon_keeps listen_def)

lemma setTheme_effect:
  "theme (setTheme th w) = th \<and>
   localStorage (setTheme th w) = (localStorage w)(''easycss-theme'' \<mapsto> th) \<and>
   storage_log (setTheme th w) = storage_log w @ [SetItem ''easycss-theme'' th]"
  by (simp add: setTheme_def Let_def this_emit_def updateThemeIcon_keeps setItem_def)

text \<open>
  C9, as the code has it. Startup is the constructor followed by \<open>initTheme\<close>. It reads
  the key \<open>easycss-theme\<close> once and reads or writes nothing else; the theme it starts
  with is the stored one, or \<open>light\<close> when nothing or the empty string is stored.
  \<open>setTheme\<close> and \<open>toggleTheme\<close> write the new theme to the same key, and that is their
  only access to the storage. So a theme that is not the empty string, set before a
  page load, is the theme after the next startup.
\<close>

theorem theme_preference_round_trip:
  "storage_log (initTheme env (new_EasyCSSEnhanced store document)) =
     [GetItem ''easycss-theme''] \<and>
   theme (initTheme env (new_EasyCSSEnhanced store document)) =
     or_else (store ''easycss-theme'') ''light'' \<and>
   (store ''easycss-theme'' = None \<longrightarrow>
      theme (initTheme env (new_EasyCSSEnhanced store document)) = ''light'') \<and>
   storage_log (setTheme th w) = storage_log w @ [SetItem ''easycss-theme'' th] \<and>
   storage_log (toggleTheme w) =
     storage_log w @ [SetItem ''easycss-theme'' (theme (toggleTheme w))] \<and>
   localStorage (setTheme th w) ''easycss-theme'' = Some th \<and>
   localStorage (toggleTheme w) ''easycss-theme'' = Some (theme (toggleTheme w)) \<and>
   (th \<noteq> [] \<longrightarrow>
      theme (initTheme env (new_EasyCSSEnhanced (localStorage (setTheme th w)) document)) = th)"
  by (simp add: initTheme_keeps setTheme_effect toggleTheme_def new_EasyCSSEnhanced_fields
      or_else_def)

theorem theme_preference_round_trip_witness:
  "theme (setTheme ''dark'' (initTheme browser0 (new_EasyCSSEnhanced Map.empty modal_page)))
     = ''dark'' \<and>
   theme (initTheme browser0 (new_EasyCSSEnhanced
     (localStorage (setTheme ''dark''
        (initTheme browser0 (new_EasyCSSEnhanced Map.empty modal_page)))) modal_page))
     = ''dark'' \<and>
   theme (initTheme browser0 (new_EasyCSSEnhanced Map.empty modal_page)) = ''light''"
proof -
  let ?w = "initTheme browser0 (new_EasyCSSEnhanced Map.empty modal_page)"
  have n: "''dark'' \<noteq> ([]::string)" by simp
  have e: "Map.empty ''easycss-theme'' = (None::string option)" by simp
  from theme_preference_round_trip [of browser0 Map.empty modal_page "''dark''" ?w] n e
  have "theme (initTheme browser0 (new_EasyCSSEnhanced
          (localStorage (setTheme ''dark'' ?w)) modal_page)) = ''dark''"
    and "theme ?w = ''light''"
    by blast+
  moreover have "theme (setTheme ''dark'' ?w) = ''dark''" by (simp add: setTheme_effect)
  ultimately show ?thesis by simp
qed

text \<open>
  The claim as it is written fails for the empty string: \<open>setTheme('')\<close> makes the theme
  \<open>''\<close> and stores it, and the next startup reads it back as falsy and starts with
  \<open>light\<close>.
\<close>

theorem empty_theme_is_not_kept_counterexample:
  "theme (setTheme [] (initTheme browser0 (new_EasyCSSEnhanced Map.empty modal_page))) = [] \<and>
   localStorage (setTheme [] (initTheme browser0 (new_EasyCSSEnhanced Map.empty modal_page)))
     ''easycss-theme'' = Some [] \<and>
   theme (initTheme browser0 (new_EasyCSSEnhanced
     (localStorage (setTheme [] (initTheme browser0 (new_EasyCSSEnhanced Map.empty modal_page))))
     modal_page)) = ''light''"
  by (simp add: initTheme_keeps setTheme_effect new_EasyCSSEnhanced_fields or_else_def)

end
